theory Spec2Isabelle
  imports Main
begin

section \<open>Values shared by both controllers\<close>

text \<open>
  The two classes under verification are \<open>ProcessController\<close> (the supervisor of the
  long-running ElastAlert process) and \<open>TestController\<close> (the runner of one-off rule
  tests). Both talk to the operating system and to a logger. Everything they do to the
  outside is appended, in program order, to a list of effects kept beside the object's
  fields, so that "what was logged", "what was spawned" and "what was signalled" are
  values a theorem can speak about.
\<close>

datatype level = Info | Warn | Err

text \<open>
  \<open>path.join(dir, name)\<close> is Node's library function; its result is kept symbolic
  (Node normalises the joined string).
\<close>

datatype path = PathJoin string string

text \<open>An element of an argument vector handed to \<open>spawn\<close>: a string, a number, a joined path.\<close>

datatype arg = Str string | Num int | Path path

text \<open>Decimal rendering of a number inside a template literal.\<close>

definition digit :: "nat \<Rightarrow> char" where
  "digit n = ''0123456789'' ! n"

fun show_nat :: "nat \<Rightarrow> string" where
  "show_nat n =
     (if n < 10 then [digit n] else show_nat (n div 10) @ [digit (n mod 10)])"

declare show_nat.simps [simp del]

text \<open>An exit code is a number, or \<open>null\<close> when the process was ended by a signal.\<close>

definition show_code :: "nat option \<Rightarrow> string" where
  "show_code code = (case code of None \<Rightarrow> ''null'' | Some n \<Rightarrow> show_nat n)"

text \<open>A child's pid is a number, or \<open>undefined\<close> when the spawn did not succeed.\<close>

definition show_pid :: "nat option \<Rightarrow> string" where
  "show_pid p = (case p of None \<Rightarrow> ''undefined'' | Some n \<Rightarrow> show_nat n)"

datatype child_process = ChildProcess (pid: "nat option")

section \<open>ProcessController\<close>

text \<open>
  Modelled from the spec: the \<open>Status\<close> enumeration of \<open>common/status\<close>, which is
  imported by the controller but is not among the sources; the spec lists its five
  members as \<open>Idle | Starting | Ready | Closing | Error\<close>.
\<close>

datatype status = IDLE | STARTING | READY | CLOSING | ERROR

text \<open>
  What \<open>onExit\<close> may be handed: \<open>null\<close>, nothing at all (\<open>undefined\<close>), or a function.
  Functions are opaque to the controller; they are told apart by a number.
\<close>

datatype callback = CbNull | CbUndefined | CbFun nat

text \<open>
  The effects of the controller. \<open>Call f s p\<close> records that callback \<open>f\<close> was invoked
  and what it could read from the controller at that moment: the status \<open>s\<close> and the
  handle \<open>p\<close>. \<open>Uncaught\<close> is an exception leaving an event listener.
\<close>

datatype effect =
    Log level string
  | SpawnSync string "arg list" string
  | Spawn string "arg list" string
  | Kill child_process string
  | Call nat status "child_process option"
  | Uncaught string

record process_controller =
  elastalertPath :: string
  onExitCallbacks :: "callback list"
  status :: status
  process :: "child_process option"
  effects :: "effect list"

text \<open>The result of the synchronous index-creation run, as \<open>spawnSync\<close> returns it.\<close>

record spawn_sync_result =
  sync_stdout :: "string option"
  sync_stderr :: "string option"
  sync_status :: "nat option"

definition constructor :: "string \<Rightarrow> process_controller" where
  "constructor p =
     \<lparr>elastalertPath = p, onExitCallbacks = [], status = IDLE, process = None, effects = []\<rparr>"

definition onExit :: "callback \<Rightarrow> process_controller \<Rightarrow> process_controller" where
  "onExit onExitCallback c = c\<lparr>onExitCallbacks := onExitCallbacks c @ [onExitCallback]\<rparr>"

definition emit :: "effect \<Rightarrow> process_controller \<Rightarrow> process_controller" where
  "emit e c = c\<lparr>effects := effects c @ [e]\<rparr>"

definition logger :: "level \<Rightarrow> string \<Rightarrow> process_controller \<Rightarrow> process_controller" where
  "logger l m c = emit (Log l m) c"



text \<open>The listener of the child's \<open>error\<close> event.\<close>

definition error_listener :: "string \<Rightarrow> process_controller \<Rightarrow> process_controller" where
  "error_listener err c =
     (logger Err (''ElastAlert error: '' @ err) c)\<lparr>status := ERROR, process := None\<rparr>"

definition config_args :: "string \<Rightarrow> string \<Rightarrow> arg list" where
  "config_args module dir =
     [Str ''-m'', Str module, Str ''--config'', Path (PathJoin dir ''config.yaml'')]"

text \<open>
  \<open>start()\<close>. The two inputs are what the operating system answers: the result of the
  synchronous index creation and the child that \<open>spawn\<close> returns. The listeners that
  \<open>start\<close> registers on the child are \<open>exit_listener\<close> and \<open>error_listener\<close>; the
  forwarding of the child's output to the logger is not part of the state.
\<close>

definition start ::
  "spawn_sync_result \<Rightarrow> child_process \<Rightarrow> process_controller \<Rightarrow> process_controller" where
  "start indexCreate child c =
     (if process c \<noteq> None then logger Warn ''ElastAlert is already running!'' c
      else
        let c1 = logger Info ''Starting ElastAlert'' c;
            c2 = c1\<lparr>status := STARTING\<rparr>;
            c3 = logger Info ''Creating index'' c2;
            c4 = emit (SpawnSync ''python3''
                        (config_args ''elastalert.create_index'' (elastalertPath c3))
                        (elastalertPath c3)) c3;
            c5 = (case sync_stdout indexCreate of
                    Some out \<Rightarrow> if out \<noteq> '''' then logger Info out c4 else c4
                  | None \<Rightarrow> c4);
            c6 = (case sync_stderr indexCreate of
                    Some err \<Rightarrow> if err \<noteq> '''' then logger Err err c5 else c5
                  | None \<Rightarrow> c5);
            c7 = (if sync_status indexCreate = Some 0
                  then logger Info
                         (''Index create exited with code '' @ show_code (sync_status indexCreate)) c6
                  else logger Warn
                         ''ElastAlert will start but might not be able to save its data!''
                         (logger Err
                           (''Index create exited with code '' @ show_code (sync_status indexCreate))
                           c6));
            c8 = logger Info ''Starting elastalert'' c7;
            c9 = (emit (Spawn ''python3''
                         (config_args ''elastalert.elastalert'' (elastalertPath c8))
                         (elastalertPath c8)) c8)\<lparr>process := Some child\<rparr>;
            c10 = logger Info (''Started Elastalert (PID: '' @ show_pid (pid child) @ '')'') c9
        in c10\<lparr>status := READY\<rparr>)"

definition stop :: "process_controller \<Rightarrow> process_controller" where
  "stop c =
     (case process c of
        Some p \<Rightarrow>
          emit (Kill p ''SIGINT'')
            ((logger Info (''Stopping ElastAlert (PID: '' @ show_pid (pid p) @ '')'') c)
               \<lparr>status := CLOSING\<rparr>)
      | None \<Rightarrow> logger Info ''ElastAlert is not running'' c)"

text \<open>A sequence of calls made by the owner of the controller, with no event in between.\<close>

datatype call = CallStart spawn_sync_result child_process | CallStop

fun perform :: "call \<Rightarrow> process_controller \<Rightarrow> process_controller" where
  "perform (CallStart indexCreate child) c = start indexCreate child c"
| "perform CallStop c = stop c"

fun calls :: "call list \<Rightarrow> process_controller \<Rightarrow> process_controller" where
  "calls [] c = c"
| "calls (x # xs) c = calls xs (perform x c)"

fun is_spawn :: "effect \<Rightarrow> bool" where
  "is_spawn (Spawn cmd args cwd) = True"
| "is_spawn e = False"

definition spawns :: "process_controller \<Rightarrow> nat" where
  "spawns c = length (filter is_spawn (effects c))"


section \<open>TestController\<close>

text \<open>
  The options of a test request. Every field may be absent (the request \<open>{}\<close> is
  accepted), hence the option types.
\<close>

record test_options =
  days :: "int option"
  format :: "string option"
  maxResults :: "int option"
  alert :: "bool option"
  testType :: "string option"

text \<open>
  \<open>processOptions\<close>, the argument vector of the test process, built by the pushes of
  \<open>testRule\<close> in their order. \<open>if (options.days)\<close> and \<open>if (options.alert)\<close> test
  truthiness: an absent field, the number \<open>0\<close> and \<open>false\<close> do not pass.
\<close>

definition push :: "'a list \<Rightarrow> 'a list \<Rightarrow> 'a list" where
  "push xs ys = xs @ ys"

definition processOptions :: "string \<Rightarrow> test_options \<Rightarrow> path \<Rightarrow> arg list" where
  "processOptions dir opts tempPath =
     (let p0 = push [] [Str ''-m'', Str ''elastalert.test_rule'', Str ''--config'',
                        Path (PathJoin dir ''config.yaml'')];
          p1 = (case days opts of
                  Some d \<Rightarrow> if d \<noteq> 0 then push p0 [Str ''--days'', Num d] else p0
                | None \<Rightarrow> p0);
          p2 = (if format opts = Some ''json'' then push p1 [Str ''--formatted-output'']
                else p1);
          p3 = (case maxResults opts of
                  Some n \<Rightarrow> if n > 0 then push p2 [Str ''--max-query-size'', Num n] else p2
                | None \<Rightarrow> p2);
          p4 = (if alert opts = Some True then push p3 [Str ''--alert''] else p3);
          p5 = (if testType opts = Some ''schemaOnly'' then push p4 [Str ''--schema-only'']
                else if testType opts = Some ''countOnly'' then push p4 [Str ''--count-only'']
                else p4)
      in push p5 [Path tempPath])"

text \<open>
  The five connection settings as \<open>config.get\<close> returns them: a string, a number, a
  boolean, or \<open>undefined\<close> when the configuration has no such entry.
\<close>

datatype jsval = JStr string | JNum int | JBool bool | JUndefined

record config =
  es_host :: jsval
  es_port :: jsval
  use_ssl :: jsval
  es_username :: jsval
  es_password :: jsval

text \<open>
  The environment of the test process: the object literal with the five keys, then the
  loop \<open>for (const key in process.env) { env[key] = process.env[key] }\<close>. The inherited
  environment \<open>process.env\<close> is the list of its entries in enumeration order; its values
  are strings.
\<close>

definition explicit_env :: "config \<Rightarrow> (string \<rightharpoonup> jsval)" where
  "explicit_env cfg =
     [''ES_HOST'' \<mapsto> es_host cfg, ''ES_PORT'' \<mapsto> es_port cfg, ''ES_USE_SSL'' \<mapsto> use_ssl cfg,
      ''ES_USERNAME'' \<mapsto> es_username cfg, ''ES_PASSWORD'' \<mapsto> es_password cfg]"

fun copy_env :: "(string \<times> string) list \<Rightarrow> (string \<rightharpoonup> jsval) \<Rightarrow> (string \<rightharpoonup> jsval)" where
  "copy_env [] env = env"
| "copy_env ((key, v) # rest) env = copy_env rest (env(key \<mapsto> JStr v))"

definition build_env :: "config \<Rightarrow> (string \<times> string) list \<Rightarrow> (string \<rightharpoonup> jsval)" where
  "build_env cfg process_env = copy_env process_env (explicit_env cfg)"

text \<open>\<open>Array.prototype.join\<close> on an array of strings.\<close>

fun join :: "string \<Rightarrow> string list \<Rightarrow> string" where
  "join sep [] = []"
| "join sep [x] = x"
| "join sep (x # y # ys) = x @ sep @ join sep (y # ys)"

definition newline :: string where
  "newline = [CHR 0x0A]"

text \<open>
  A promise is pending or settled, and settles once: \<open>resolve\<close> and \<open>reject\<close> on a
  settled promise do nothing. A test resolves with the output text; the trailing
  handler returns nothing, which resolves with \<open>undefined\<close>. A rejection reason is the
  error text of the test process or an error object, denoted by its message.
\<close>

datatype outcome = VString string | VUndefined

datatype reason = Message string | Exception string

datatype promise = Pending | Fulfilled outcome | Rejected reason

definition resolve :: "outcome \<Rightarrow> promise \<Rightarrow> promise" where
  "resolve v p = (case p of Pending \<Rightarrow> Fulfilled v | _ \<Rightarrow> p)"

definition reject :: "reason \<Rightarrow> promise \<Rightarrow> promise" where
  "reject r p = (case p of Pending \<Rightarrow> Rejected r | _ \<Rightarrow> p)"

text \<open>
  Modelled from the spec: the \<open>FileSystem\<close> class of \<open>common/file_system\<close>, which is
  used by the controller but is not among the sources. \<open>writeFile\<close> stores the text
  under the path or fails with a filesystem error; \<open>deleteFile\<close> removes the file or
  fails, and it fails on a file that is not there. Whether the operating system lets
  the directory be written to and files be removed is part of the file system's state.
\<close>

record file_system =
  files :: "path \<rightharpoonup> string"
  writable :: bool
  removable :: bool

definition writeFile :: "path \<Rightarrow> string \<Rightarrow> file_system \<Rightarrow> string + file_system" where
  "writeFile p content fsys =
     (if writable fsys then Inr (fsys\<lparr>files := (files fsys)(p \<mapsto> content)\<rparr>)
      else Inl ''EACCES'')"

definition deleteFile :: "path \<Rightarrow> file_system \<Rightarrow> string + file_system" where
  "deleteFile p fsys =
     (if files fsys p = None then Inl ''ENOENT''
      else if removable fsys then Inr (fsys\<lparr>files := (files fsys)(p := None)\<rparr>)
      else Inl ''EPERM'')"

text \<open>
  The effects of a test job. A log line is the list of the logger's arguments, a
  template literal being split at its interpolations. \<open>Send event data\<close> is
  \<open>socket.send(JSON.stringify({event, data}))\<close>.
\<close>

datatype test_effect =
    TLog level "arg list"
  | SpawnTest string "arg list" string
  | Send string string
  | KillTest child_process
  | Unlink path

record test_controller =
  installPath :: string
  testFolder :: string

text \<open>
  One call of \<open>testRule\<close>: the variables of its closure (\<open>options\<close>, \<open>socket\<close>,
  \<open>tempFilePath\<close>, \<open>stdoutLines\<close>, \<open>stderrLines\<close>, \<open>testProcess\<close>, \<open>env\<close>), the promise
  made by \<open>new Promise\<close> (\<open>inner\<close>), the promise that \<open>.catch\<close> makes of it and that
  \<open>testRule\<close> returns (\<open>returned\<close>), the file system and the effects so far.
  \<open>socket\<close> tells whether a socket was supplied. \<open>testProcess\<close> is \<open>None\<close> as long
  as no process was spawned, and then no listener is registered.
\<close>

record test_job =
  options :: test_options
  socket :: bool
  tempFilePath :: path
  stdoutLines :: "string list"
  stderrLines :: "string list"
  testProcess :: "child_process option"
  env :: "string \<rightharpoonup> jsval"
  inner :: promise
  returned :: promise
  fs :: file_system
  trace :: "test_effect list"

definition tell :: "test_effect \<Rightarrow> test_job \<Rightarrow> test_job" where
  "tell e j = j\<lparr>trace := trace j @ [e]\<rparr>"

definition reason_arg :: "reason \<Rightarrow> arg" where
  "reason_arg r = (case r of Message m \<Rightarrow> Str m | Exception m \<Rightarrow> Str m)"

text \<open>
  The reactions to the settling of \<open>inner\<close>, run after the current listener has
  returned: a fulfilment passes through \<open>.catch\<close>; a rejection runs the trailing
  handler, which logs and returns nothing.
\<close>

definition microtasks :: "test_job \<Rightarrow> test_job" where
  "microtasks j =
     (case returned j of
        Pending \<Rightarrow>
          (case inner j of
             Pending \<Rightarrow> j
           | Fulfilled v \<Rightarrow> j\<lparr>returned := Fulfilled v\<rparr>
           | Rejected r \<Rightarrow>
               (tell (TLog Err [Str ''Failed to test rule with error:'', reason_arg r]) j)
                 \<lparr>returned := Fulfilled VUndefined\<rparr>)
      | _ \<Rightarrow> j)"

text \<open>
  \<open>fileSystem.deleteFile(tempFilePath).catch(...)\<close>: the call, and later its result, a
  failure being logged and nothing else.
\<close>

definition delete_call :: "test_job \<Rightarrow> test_job" where
  "delete_call j = tell (Unlink (tempFilePath j)) j"

definition delete_result :: "test_job \<Rightarrow> test_job" where
  "delete_result j =
     (case deleteFile (tempFilePath j) (fs j) of
        Inr fsys \<Rightarrow> j\<lparr>fs := fsys\<rparr>
      | Inl error \<Rightarrow>
          tell (TLog Err [Str ''Failed to delete temporary test file '', Path (tempFilePath j),
                          Str '' with error:'', Str error]) j)"

text \<open>
  \<open>testRule(rule, options, socket)\<close> up to the registration of the listeners. The
  inputs beside the arguments are the configuration, the inherited environment, the
  random string, the file system and what \<open>spawn\<close> does: it returns a child or throws.
\<close>

definition testRule ::
  "test_controller \<Rightarrow> config \<Rightarrow> (string \<times> string) list \<Rightarrow> string \<Rightarrow> file_system \<Rightarrow>
   string + child_process \<Rightarrow> string \<Rightarrow> test_options \<Rightarrow> bool \<Rightarrow> test_job" where
  "testRule self cfg process_env random fsys spawned rule opts sock =
     (let tempFileName = ''~'' @ random @ ''.temp'';
          tempPath = PathJoin (testFolder self) tempFileName;
          j0 = \<lparr>options = opts, socket = sock, tempFilePath = tempPath, stdoutLines = [],
                stderrLines = [], testProcess = None, env = Map.empty, inner = Pending,
                returned = Pending, fs = fsys, trace = []\<rparr>
      in case writeFile tempPath rule fsys of
           Inl error \<Rightarrow>
             microtasks
               ((tell (TLog Err [Str ''Failed to write file '', Str tempFileName, Str '' to '',
                                 Str (testFolder self), Str '' with error:'', Str error]) j0)
                  \<lparr>inner := reject (Exception error) (inner j0)\<rparr>)
         | Inr written \<Rightarrow>
             (let j1 = j0\<lparr>fs := written, env := build_env cfg process_env\<rparr>;
                  args = processOptions (installPath self) opts tempPath
              in case spawned of
                   Inl error \<Rightarrow>
                     microtasks
                       ((tell (TLog Err [Str ''Failed to start test on '', Path tempPath,
                                         Str '' with error:'', Str error]) j1)
                          \<lparr>inner := reject (Exception error) (inner j1)\<rparr>)
                 | Inr child \<Rightarrow>
                     (tell (SpawnTest ''python3'' args (installPath self)) j1)
                       \<lparr>testProcess := Some child\<rparr>))"

text \<open>The events a running test job receives, and their listeners.\<close>

datatype event = StdoutData string | StderrData string | Exit "nat option" | SocketClose

definition on_stdout :: "string \<Rightarrow> test_job \<Rightarrow> test_job" where
  "on_stdout data j =
     (let j1 = (if socket j then tell (Send ''result'' data) j else j);
          j2 = j1\<lparr>stdoutLines := stdoutLines j1 @ [data]\<rparr>
      in tell (TLog Info [Str data]) j2)"

definition on_stderr :: "string \<Rightarrow> test_job \<Rightarrow> test_job" where
  "on_stderr data j =
     (let j1 = (if socket j then tell (Send ''progress'' data) j else j);
          j2 = j1\<lparr>stderrLines := stderrLines j1 @ [data]\<rparr>
      in tell (TLog Err [Str data]) j2)"

definition on_exit :: "nat option \<Rightarrow> test_job \<Rightarrow> test_job" where
  "on_exit statusCode j =
     (let j1 = (if statusCode = Some 0
                then (if format (options j) = Some ''json''
                      then j\<lparr>inner := resolve (VString (join [] (stdoutLines j))) (inner j)\<rparr>
                      else j\<lparr>inner := resolve (VString (join newline (stdoutLines j))) (inner j)\<rparr>)
                else (if \<not> socket j
                      then tell (TLog Err [Str (join newline (stderrLines j))])
                             (j\<lparr>inner := reject (Message (join newline (stderrLines j))) (inner j)\<rparr>)
                      else j))
      in delete_result (microtasks (delete_call j1)))"

definition on_close :: "test_job \<Rightarrow> test_job" where
  "on_close j =
     (case testProcess j of
        Some child \<Rightarrow> delete_result (delete_call (tell (KillTest child) j))
      | None \<Rightarrow> j)"

text \<open>
  The delivery of one event. Without a spawned process there is no listener; the
  \<open>close\<close> listener exists only when a socket was supplied.
\<close>

definition handle :: "event \<Rightarrow> test_job \<Rightarrow> test_job" where
  "handle ev j =
     (if testProcess j = None then j
      else case ev of
             StdoutData data \<Rightarrow> on_stdout data j
           | StderrData data \<Rightarrow> on_stderr data j
           | Exit statusCode \<Rightarrow> on_exit statusCode j
           | SocketClose \<Rightarrow> if socket j then on_close j else j)"

fun run :: "event list \<Rightarrow> test_job \<Rightarrow> test_job" where
  "run [] j = j"
| "run (ev # evs) j = run evs (handle ev j)"




section \<open>Notions used in the statements\<close>

text \<open>What \<open>.catch\<close> with a handler that returns nothing makes of a promise.\<close>

definition caught :: "promise \<Rightarrow> promise" where
  "caught p =
     (case p of Pending \<Rightarrow> Pending | Fulfilled v \<Rightarrow> Fulfilled v
      | Rejected r \<Rightarrow> Fulfilled VUndefined)"


text \<open>
  The events that end a job: the exit of the test process, and the closing of the
  socket when one was supplied.
\<close>

fun ends_job :: "bool \<Rightarrow> event \<Rightarrow> bool" where
  "ends_job sock (Exit statusCode) = True"
| "ends_job sock SocketClose = sock"
| "ends_job sock ev = False"

text \<open>Concrete inputs, for the examples that accompany the theorems.\<close>

definition sample_config :: config where
  "sample_config =
     \<lparr>es_host = JStr ''elastalert'', es_port = JNum 9200, use_ssl = JBool False,
      es_username = JUndefined, es_password = JUndefined\<rparr>"

definition sample_controller :: test_controller where
  "sample_controller = \<lparr>installPath = ''/opt/elastalert'', testFolder = ''/data/tests''\<rparr>"

definition sample_fs :: file_system where
  "sample_fs = \<lparr>files = Map.empty, writable = True, removable = True\<rparr>"

definition no_options :: test_options where
  "no_options =
     \<lparr>days = None, format = None, maxResults = None, alert = None, testType = None\<rparr>"

definition sample_child :: child_process where
  "sample_child = ChildProcess (Some 7)"

definition index_created :: spawn_sync_result where
  "index_created = \<lparr>sync_stdout = Some [], sync_stderr = Some [], sync_status = Some 0\<rparr>"

text \<open>A supervisor whose process failed to spawn: started once, then the error event.\<close>

definition failed_controller :: process_controller where
  "failed_controller =
     error_listener ''spawn python3 ENOENT''
       (start index_created (ChildProcess None) (constructor ''/opt/elastalert''))"

text \<open>A running supervisor with three registered callbacks, one of them \<open>null\<close>.\<close>

definition running_controller :: process_controller where
  "running_controller =
     start index_created sample_child
       (onExit (CbFun 2) (onExit CbNull (onExit (CbFun 1) (constructor ''/opt/elastalert''))))"


section \<open>Lemmas\<close>

subsection \<open>The supervisor\<close>

lemma emit_fields [simp]:
  "status (emit e c) = status c" "process (emit e c) = process c"
  "onExitCallbacks (emit e c) = onExitCallbacks c" "elastalertPath (emit e c) = elastalertPath c"
  "effects (emit e c) = effects c @ [e]"
  by (simp_all add: emit_def)

lemma logger_fields [simp]:
  "status (logger l m c) = status c" "process (logger l m c) = process c"
  "onExitCallbacks (logger l m c) = onExitCallbacks c"
  "elastalertPath (logger l m c) = elastalertPath c"
  "effects (logger l m c) = effects c @ [Log l m]"
  by (simp_all add: logger_def)


lemma start_running: "process c \<noteq> None \<Longrightarrow> start ic ch c = logger Warn ''ElastAlert is already running!'' c"
  by (simp add: start_def)

lemma start_idle_fields:
  "process c = None \<Longrightarrow> process (start ic ch c) = Some ch \<and> status (start ic ch c) = READY
    \<and> onExitCallbacks (start ic ch c) = onExitCallbacks c \<and> elastalertPath (start ic ch c) = elastalertPath c"
  by (simp add: start_def Let_def split: option.splits)

lemma start_idle_effects:
  "process c = None \<Longrightarrow> effects (start ic ch c) =
     effects c
     @ [Log Info ''Starting ElastAlert'', Log Info ''Creating index'',
        SpawnSync ''python3'' (config_args ''elastalert.create_index'' (elastalertPath c)) (elastalertPath c)]
     @ (case sync_stdout ic of Some out \<Rightarrow> if out \<noteq> [] then [Log Info out] else [] | None \<Rightarrow> [])
     @ (case sync_stderr ic of Some e \<Rightarrow> if e \<noteq> [] then [Log Err e] else [] | None \<Rightarrow> [])
     @ (if sync_status ic = Some 0 then [Log Info (''Index create exited with code '' @ show_code (sync_status ic))]
        else [Log Err (''Index create exited with code '' @ show_code (sync_status ic)),
              Log Warn ''ElastAlert will start but might not be able to save its data!''])
     @ [Log Info ''Starting elastalert'',
        Spawn ''python3'' (config_args ''elastalert.elastalert'' (elastalertPath c)) (elastalertPath c),
        Log Info (''Started Elastalert (PID: '' @ show_pid (pid ch) @ '')'')]"
  by (simp add: start_def Let_def split: option.splits)

lemma spawns_start_idle: "process c = None \<Longrightarrow> spawns (start ic ch c) = Suc (spawns c)"
  by (simp add: spawns_def start_idle_effects split: option.splits)

lemma spawns_start_running: "process c \<noteq> None \<Longrightarrow> spawns (start ic ch c) = spawns c"
  by (simp add: spawns_def start_running)

lemma stop_fields: "process (stop c) = process c" "spawns (stop c) = spawns c"
  by (simp_all add: stop_def spawns_def split: option.splits)

lemma start_process: "process (start ic ch c) \<noteq> None"
  by (cases "process c = None") (simp_all add: start_idle_fields start_running)

lemma perform_running:
  "process c \<noteq> None \<Longrightarrow> process (perform x c) = process c \<and> spawns (perform x c) = spawns c"
  by (cases x) (simp_all add: stop_fields spawns_start_running, simp add: start_running)

lemma calls_running:
  "process c \<noteq> None \<Longrightarrow> process (calls xs c) = process c \<and> spawns (calls xs c) = spawns c"
  by (induction xs arbitrary: c) (simp_all add: perform_running)

lemma calls_spawns: "spawns (calls xs c) \<le> Suc (spawns c)"
proof (induction xs arbitrary: c)
  case Nil
  then show ?case by simp
next
  case (Cons x xs)
  show ?case
  proof (cases "process (perform x c) = None")
    case True
    then have "spawns (perform x c) = spawns c"
      by (cases x) (simp_all add: stop_fields start_process)
    with Cons[of "perform x c"] show ?thesis by simp
  next
    case False
    then have "spawns (calls xs (perform x c)) = spawns (perform x c)"
      by (simp add: calls_running)
    moreover have "spawns (perform x c) \<le> Suc (spawns c)"
      by (cases x; cases "process c = None") (simp_all add: spawns_start_idle spawns_start_running stop_fields)
    ultimately show ?thesis by simp
  qed
qed

subsection \<open>The listeners of a test job, field by field\<close>

lemma caught_simps [simp]:
  "caught Pending = Pending" "caught (Fulfilled v) = Fulfilled v"
  "caught (Rejected r) = Fulfilled VUndefined"
  by (simp_all add: caught_def)

lemma tell_fields [simp]:
  "options (tell e j) = options j" "socket (tell e j) = socket j"
  "tempFilePath (tell e j) = tempFilePath j" "testProcess (tell e j) = testProcess j"
  "env (tell e j) = env j" "fs (tell e j) = fs j" "inner (tell e j) = inner j"
  "returned (tell e j) = returned j" "stdoutLines (tell e j) = stdoutLines j"
  "stderrLines (tell e j) = stderrLines j" "trace (tell e j) = trace j @ [e]"
  by (simp_all add: tell_def)

lemma microtasks_fields [simp]:
  "options (microtasks j) = options j" "socket (microtasks j) = socket j"
  "tempFilePath (microtasks j) = tempFilePath j" "testProcess (microtasks j) = testProcess j"
  "env (microtasks j) = env j" "fs (microtasks j) = fs j" "inner (microtasks j) = inner j"
  "stdoutLines (microtasks j) = stdoutLines j" "stderrLines (microtasks j) = stderrLines j"
  by (simp_all add: microtasks_def split: promise.splits)


lemma delete_call_fields [simp]:
  "options (delete_call j) = options j" "socket (delete_call j) = socket j"
  "tempFilePath (delete_call j) = tempFilePath j" "testProcess (delete_call j) = testProcess j"
  "env (delete_call j) = env j" "fs (delete_call j) = fs j" "inner (delete_call j) = inner j"
  "returned (delete_call j) = returned j" "stdoutLines (delete_call j) = stdoutLines j"
  "stderrLines (delete_call j) = stderrLines j"
  "trace (delete_call j) = trace j @ [Unlink (tempFilePath j)]"
  by (simp_all add: delete_call_def)

lemma delete_result_fields [simp]:
  "options (delete_result j) = options j" "socket (delete_result j) = socket j"
  "tempFilePath (delete_result j) = tempFilePath j" "testProcess (delete_result j) = testProcess j"
  "env (delete_result j) = env j" "inner (delete_result j) = inner j"
  "returned (delete_result j) = returned j" "stdoutLines (delete_result j) = stdoutLines j"
  "stderrLines (delete_result j) = stderrLines j"
  by (simp_all add: delete_result_def split: sum.splits)

lemma delete_result_fs:
  "removable (fs (delete_result j)) = removable (fs j)"
  "writable (fs (delete_result j)) = writable (fs j)"
  "p \<noteq> tempFilePath j \<Longrightarrow> files (fs (delete_result j)) p = files (fs j) p"
  "files (fs j) p = None \<Longrightarrow> files (fs (delete_result j)) p = None"
  "removable (fs j) \<Longrightarrow> tempFilePath j = p \<Longrightarrow> files (fs (delete_result j)) p = None"
  by (auto simp add: delete_result_def deleteFile_def)

lemma on_stdout_fields [simp]:
  "options (on_stdout d j) = options j" "socket (on_stdout d j) = socket j"
  "tempFilePath (on_stdout d j) = tempFilePath j" "testProcess (on_stdout d j) = testProcess j"
  "env (on_stdout d j) = env j" "fs (on_stdout d j) = fs j" "inner (on_stdout d j) = inner j"
  "returned (on_stdout d j) = returned j" "stdoutLines (on_stdout d j) = stdoutLines j @ [d]"
  "stderrLines (on_stdout d j) = stderrLines j"
  by (simp_all add: on_stdout_def Let_def)

lemma on_stderr_fields [simp]:
  "options (on_stderr d j) = options j" "socket (on_stderr d j) = socket j"
  "tempFilePath (on_stderr d j) = tempFilePath j" "testProcess (on_stderr d j) = testProcess j"
  "env (on_stderr d j) = env j" "fs (on_stderr d j) = fs j" "inner (on_stderr d j) = inner j"
  "returned (on_stderr d j) = returned j" "stdoutLines (on_stderr d j) = stdoutLines j"
  "stderrLines (on_stderr d j) = stderrLines j @ [d]"
  by (simp_all add: on_stderr_def Let_def)

lemma on_close_fields [simp]:
  "options (on_close j) = options j" "socket (on_close j) = socket j"
  "tempFilePath (on_close j) = tempFilePath j" "testProcess (on_close j) = testProcess j"
  "env (on_close j) = env j" "inner (on_close j) = inner j"
  "returned (on_close j) = returned j" "stdoutLines (on_close j) = stdoutLines j"
  "stderrLines (on_close j) = stderrLines j"
  by (simp_all add: on_close_def split: option.splits)

lemma on_exit_fields [simp]:
  "options (on_exit code j) = options j" "socket (on_exit code j) = socket j"
  "tempFilePath (on_exit code j) = tempFilePath j" "testProcess (on_exit code j) = testProcess j"
  "env (on_exit code j) = env j" "stdoutLines (on_exit code j) = stdoutLines j"
  "stderrLines (on_exit code j) = stderrLines j"
  by (simp_all add: on_exit_def Let_def)



subsection \<open>Events and runs\<close>













lemma testRule_spawned:
  "writable fsys \<Longrightarrow>
   testRule self cfg penv rnd fsys (Inr child) rule opts sock =
     \<lparr>options = opts, socket = sock,
      tempFilePath = PathJoin (testFolder self) (''~'' @ rnd @ ''.temp''),
      stdoutLines = [], stderrLines = [], testProcess = Some child,
      env = build_env cfg penv, inner = Pending, returned = Pending,
      fs = fsys\<lparr>files := (files fsys)(PathJoin (testFolder self) (''~'' @ rnd @ ''.temp'') \<mapsto> rule)\<rparr>,
      trace = [SpawnTest ''python3''
                 (processOptions (installPath self) opts
                    (PathJoin (testFolder self) (''~'' @ rnd @ ''.temp'')))
                 (installPath self)]\<rparr>"
  by (simp add: testRule_def writeFile_def Let_def tell_def)







subsection \<open>The file system and the effects of a run\<close>














lemma on_exit_fs:
  "removable (fs (on_exit code j)) = removable (fs j)"
  "files (fs j) (tempFilePath j) = None \<Longrightarrow> files (fs (on_exit code j)) (tempFilePath j) = None"
  "removable (fs j) \<Longrightarrow> files (fs (on_exit code j)) (tempFilePath j) = None"
  by (simp_all add: on_exit_def Let_def delete_result_fs)

lemma on_close_fs:
  "removable (fs (on_close j)) = removable (fs j)"
  "files (fs j) (tempFilePath j) = None \<Longrightarrow> files (fs (on_close j)) (tempFilePath j) = None"
  "testProcess j \<noteq> None \<Longrightarrow> removable (fs j) \<Longrightarrow> files (fs (on_close j)) (tempFilePath j) = None"
  by (auto simp add: on_close_def delete_result_fs split: option.splits)

lemma handle_removable: "removable (fs (handle ev j)) = removable (fs j)"
  by (cases ev) (simp_all add: handle_def on_exit_fs on_close_fs)

lemma handle_absent:
  "files (fs j) (tempFilePath j) = None \<Longrightarrow> files (fs (handle ev j)) (tempFilePath j) = None"
  by (cases ev) (simp_all add: handle_def on_exit_fs on_close_fs)

lemma handle_deletes:
  "testProcess j \<noteq> None \<Longrightarrow> ends_job (socket j) ev \<Longrightarrow> removable (fs j) \<Longrightarrow>
     files (fs (handle ev j)) (tempFilePath j) = None"
  by (cases ev) (auto simp add: handle_def on_exit_fs on_close_fs)

lemmas handle_fs = handle_removable handle_absent handle_deletes



subsection \<open>Environment and argument vector\<close>

lemma copy_env_other: "k \<notin> fst ` set penv \<Longrightarrow> copy_env penv e k = e k"
  by (induction penv arbitrary: e) auto

lemma copy_env_inherited:
  "distinct (map fst penv) \<Longrightarrow> (k, v) \<in> set penv \<Longrightarrow> copy_env penv e k = Some (JStr v)"
proof (induction penv arbitrary: e)
  case Nil
  then show ?case by simp
next
  case (Cons kv penv)
  obtain k' v' where kv: "kv = (k', v')" by (cases kv)
  show ?case
  proof (cases "(k, v) \<in> set penv")
    case True
    with Cons show ?thesis by (simp add: kv)
  next
    case False
    with Cons.prems have "k' = k" "v' = v" "k \<notin> fst ` set penv"
      by (auto simp: kv)
    then show ?thesis by (simp add: kv copy_env_other)
  qed
qed

lemma copy_env_dom: "dom (copy_env penv e) = dom e \<union> fst ` set penv"
proof (induction penv arbitrary: e)
  case Nil
  then show ?case by simp
next
  case (Cons kv penv)
  obtain k v where kv: "kv = (k, v)" by (cases kv)
  have "copy_env (kv # penv) e = copy_env penv (e(k \<mapsto> JStr v))"
    by (simp add: kv)
  then have "dom (copy_env (kv # penv) e) = dom (e(k \<mapsto> JStr v)) \<union> fst ` set penv"
    by (simp only: Cons.IH)
  also have "\<dots> = dom e \<union> fst ` set (kv # penv)"
    by (auto simp: kv)
  finally show ?case .
qed

lemma processOptions_closed:
  "processOptions dir opts tmp =
     [Str ''-m'', Str ''elastalert.test_rule'', Str ''--config'', Path (PathJoin dir ''config.yaml'')]
     @ (case days opts of Some d \<Rightarrow> if d \<noteq> 0 then [Str ''--days'', Num d] else [] | None \<Rightarrow> [])
     @ (if format opts = Some ''json'' then [Str ''--formatted-output''] else [])
     @ (case maxResults opts of Some n \<Rightarrow> if 0 < n then [Str ''--max-query-size'', Num n] else []
        | None \<Rightarrow> [])
     @ (if alert opts = Some True then [Str ''--alert''] else [])
     @ (if testType opts = Some ''schemaOnly'' then [Str ''--schema-only'']
        else if testType opts = Some ''countOnly'' then [Str ''--count-only''] else [])
     @ [Path tmp]"
  by (simp add: processOptions_def push_def Let_def split: option.splits)









lemma run_removable: "removable (fs (run evs j)) = removable (fs j)"
  by (induction evs arbitrary: j) (simp_all add: handle_fs)

subsection \<open>A run up to the exit of the test process\<close>





subsection \<open>More on the supervisor\<close>

lemma error_listener_fields:
  "status (error_listener err c) = ERROR" "process (error_listener err c) = None"
  "onExitCallbacks (error_listener err c) = onExitCallbacks c"
  "elastalertPath (error_listener err c) = elastalertPath c"
  "effects (error_listener err c) = effects c @ [Log Err (''ElastAlert error: '' @ err)]"
  "spawns (error_listener err c) = spawns c"
  by (simp_all add: error_listener_def spawns_def)


lemma stop_idle: "process c = None \<Longrightarrow> stop c = c\<lparr>effects := effects c @ [Log Info ''ElastAlert is not running'']\<rparr>"
  by (simp add: stop_def logger_def emit_def)

lemma stop_running:
  "process c = Some p \<Longrightarrow>
   stop c = c\<lparr>status := CLOSING,
              effects := effects c @ [Log Info (''Stopping ElastAlert (PID: '' @ show_pid (pid p) @ '')''),
                                      Kill p ''SIGINT'']\<rparr>"
  by (simp add: stop_def logger_def emit_def)

lemma constructor_fields:
  "status (constructor p) = IDLE" "process (constructor p) = None"
  "onExitCallbacks (constructor p) = []" "elastalertPath (constructor p) = p"
  "effects (constructor p) = []"
  by (simp_all add: constructor_def)

lemma onExit_fields:
  "status (onExit cb c) = status c" "process (onExit cb c) = process c"
  "onExitCallbacks (onExit cb c) = onExitCallbacks c @ [cb]"
  "elastalertPath (onExit cb c) = elastalertPath c" "effects (onExit cb c) = effects c"
  by (simp_all add: onExit_def)

lemma show_nat_digit: "n < 10 \<Longrightarrow> show_nat n = [digit n]"
  by (simp add: show_nat.simps)

section \<open>The supervisor: claims C3, C4, C7 and C10\<close>



text \<open>
  Claim C4, as amended. Whenever \<open>start()\<close> is called while a process handle is held,
  the call does nothing but log a warning; consequently, in every sequence of \<open>start()\<close>
  and \<open>stop()\<close> calls during which no exit or error event clears the handle, at most
  one spawn occurs, and none at all when a handle was held at the beginning, the handle
  staying the same.
\<close>

theorem start_guard_on_handle:
  "(process c \<noteq> None \<longrightarrow>
      start indexCreate child c =
        c\<lparr>effects := effects c @ [Log Warn ''ElastAlert is already running!'']\<rparr> \<and>
      process (calls xs c) = process c \<and> spawns (calls xs c) = spawns c) \<and>
   spawns (calls xs c) \<le> Suc (spawns c)"
  by (simp add: start_running calls_running calls_spawns logger_def emit_def)

text \<open>
  Claim C4 as written fails: after an error event the status is \<open>ERROR\<close>, not
  \<open>IDLE\<close>, and \<open>start()\<close> spawns a second process nevertheless.
\<close>

theorem start_after_error_counterexample:
  "status failed_controller = ERROR \<and> spawns failed_controller = 1 \<and>
   start index_created sample_child failed_controller \<noteq>
     failed_controller\<lparr>effects := effects failed_controller
                                    @ [Log Warn ''ElastAlert is already running!'']\<rparr> \<and>
   process (start index_created sample_child failed_controller) = Some sample_child \<and>
   spawns (start index_created sample_child failed_controller) = 2"
proof -
  have none: "process failed_controller = None"
    by (simp add: failed_controller_def error_listener_fields)
  have one: "spawns failed_controller = 1"
    by (simp add: failed_controller_def error_listener_fields spawns_start_idle
        constructor_fields)
       (simp add: spawns_def constructor_fields)
  have p: "process (start index_created sample_child failed_controller) = Some sample_child"
    using none by (simp add: start_idle_fields)
  have "process (failed_controller\<lparr>effects := effects failed_controller
                  @ [Log Warn ''ElastAlert is already running!'']\<rparr>) = None"
    using none by simp
  with p have "start index_created sample_child failed_controller \<noteq>
     failed_controller\<lparr>effects := effects failed_controller
                                    @ [Log Warn ''ElastAlert is already running!'']\<rparr>"
    by auto
  then show ?thesis
    using none one p
    by (simp add: spawns_start_idle) (simp add: failed_controller_def error_listener_fields)
qed

theorem start_guard_on_handle_witness:
  "process running_controller \<noteq> None \<and>
   start index_created (ChildProcess (Some 8)) running_controller =
     running_controller\<lparr>effects := effects running_controller
                                     @ [Log Warn ''ElastAlert is already running!'']\<rparr> \<and>
   process (calls [CallStart index_created (ChildProcess (Some 8)), CallStop,
                   CallStart index_created (ChildProcess (Some 9))] running_controller)
     = Some sample_child \<and>
   spawns (calls [CallStart index_created (ChildProcess (Some 8)), CallStop,
                  CallStart index_created (ChildProcess (Some 9))] running_controller)
     = spawns running_controller"
proof -
  have p: "process running_controller = Some sample_child"
    by (simp add: running_controller_def start_idle_fields onExit_fields constructor_fields)
  show ?thesis
    using p start_guard_on_handle [of running_controller index_created "ChildProcess (Some 8)"
        "[CallStart index_created (ChildProcess (Some 8)), CallStop,
          CallStart index_created (ChildProcess (Some 9))]"]
    by (simp del: calls.simps)
qed

text \<open>
  Claim C7. \<open>stop()\<close> without a process handle throws nothing and changes nothing of
  the supervisor: it only logs. \<open>stop()\<close> with a handle sets the status to \<open>CLOSING\<close>
  and sends \<open>SIGINT\<close> to the process; the handle is kept, so that the status is settled
  later by the exit listener.
\<close>

theorem stop_contract:
  "(process c = None \<longrightarrow>
      stop c = c\<lparr>effects := effects c @ [Log Info ''ElastAlert is not running'']\<rparr>) \<and>
   (process c = Some p \<longrightarrow>
      stop c =
        c\<lparr>status := CLOSING,
          effects := effects c
            @ [Log Info (''Stopping ElastAlert (PID: '' @ show_pid (pid p) @ '')''),
               Kill p ''SIGINT'']\<rparr>)"
  by (simp add: stop_idle stop_running)

theorem stop_contract_witness:
  "process (constructor ''/opt/elastalert'') = None \<and>
   stop (constructor ''/opt/elastalert'') =
     (constructor ''/opt/elastalert'')\<lparr>effects := [Log Info ''ElastAlert is not running'']\<rparr> \<and>
   process running_controller = Some sample_child \<and>
   status (stop running_controller) = CLOSING \<and>
   process (stop running_controller) = Some sample_child \<and>
   effects (stop running_controller) =
     effects running_controller
     @ [Log Info ''Stopping ElastAlert (PID: 7)'', Kill sample_child ''SIGINT'']"
proof -
  have p: "process running_controller = Some sample_child"
    by (simp add: running_controller_def start_idle_fields onExit_fields constructor_fields)
  show ?thesis
    using p stop_contract [of "constructor ''/opt/elastalert''" sample_child]
      stop_contract [of running_controller sample_child]
    by (simp add: constructor_fields sample_child_def show_pid_def show_nat_digit digit_def)
qed

text \<open>
  Claim C10. The guard of \<open>start()\<close> looks at the process handle only, not at the
  status: whenever the handle is \<open>null\<close>, whatever the status, \<open>start()\<close> goes through
  the whole sequence, the synchronous index creation and the spawn, and ends in
  \<open>READY\<close> holding the new handle. The error listener sets the status to \<open>ERROR\<close> and
  clears the handle, so a \<open>start()\<close> after it spawns again.
\<close>

theorem start_tests_handle_only:
  "(process c = None \<longrightarrow>
      process (start indexCreate child c) = Some child \<and>
      status (start indexCreate child c) = READY \<and>
      spawns (start indexCreate child c) = Suc (spawns c) \<and>
      effects (start indexCreate child c) =
        effects c
        @ [Log Info ''Starting ElastAlert'', Log Info ''Creating index'',
           SpawnSync ''python3'' (config_args ''elastalert.create_index'' (elastalertPath c))
             (elastalertPath c)]
        @ (case sync_stdout indexCreate of
             Some out \<Rightarrow> if out \<noteq> [] then [Log Info out] else [] | None \<Rightarrow> [])
        @ (case sync_stderr indexCreate of
             Some e \<Rightarrow> if e \<noteq> [] then [Log Err e] else [] | None \<Rightarrow> [])
        @ (if sync_status indexCreate = Some 0
           then [Log Info (''Index create exited with code '' @ show_code (sync_status indexCreate))]
           else [Log Err (''Index create exited with code '' @ show_code (sync_status indexCreate)),
                 Log Warn ''ElastAlert will start but might not be able to save its data!''])
        @ [Log Info ''Starting elastalert'',
           Spawn ''python3'' (config_args ''elastalert.elastalert'' (elastalertPath c))
             (elastalertPath c),
           Log Info (''Started Elastalert (PID: '' @ show_pid (pid child) @ '')'')]) \<and>
   status (error_listener err c) = ERROR \<and>
   process (error_listener err c) = None \<and>
   process (start indexCreate child (error_listener err c)) = Some child \<and>
   status (start indexCreate child (error_listener err c)) = READY \<and>
   spawns (start indexCreate child (error_listener err c)) = Suc (spawns c)"
  by (simp add: start_idle_fields spawns_start_idle start_idle_effects error_listener_fields)

theorem start_tests_handle_only_witness:
  "process failed_controller = None \<and> status failed_controller = ERROR \<and>
   process (start index_created sample_child failed_controller) = Some sample_child \<and>
   status (start index_created sample_child failed_controller) = READY \<and>
   spawns (start index_created sample_child failed_controller) = Suc (spawns failed_controller)"
proof -
  have "process failed_controller = None" "status failed_controller = ERROR"
    by (simp_all add: failed_controller_def error_listener_fields)
  then show ?thesis
    using start_tests_handle_only [of failed_controller index_created sample_child] by simp
qed

section \<open>The test runner: claims C1, C2, C5, C6, C8 and C9\<close>

text \<open>
  Claim C1, as amended. The environment handed to the test process is the object with
  the five keys \<open>ES_HOST\<close>, \<open>ES_PORT\<close>, \<open>ES_USE_SSL\<close>, \<open>ES_USERNAME\<close>, \<open>ES_PASSWORD\<close>
  set from the configuration, over which every entry of the inherited environment is
  copied: every inherited key, those five included, is passed through with its
  inherited value, and each of the five keys carries the configuration value exactly
  when the inherited environment does not define it. No other key is present.
\<close>

theorem env_inherited_wins:
  "(writable fsys \<longrightarrow>
      env (testRule self cfg penv rnd fsys (Inr child) rule opts sock) = build_env cfg penv) \<and>
   (distinct (map fst penv) \<and> (k, v) \<in> set penv \<longrightarrow> build_env cfg penv k = Some (JStr v)) \<and>
   (k \<notin> fst ` set penv \<longrightarrow> build_env cfg penv k = explicit_env cfg k) \<and>
   explicit_env cfg ''ES_HOST'' = Some (es_host cfg) \<and>
   explicit_env cfg ''ES_PORT'' = Some (es_port cfg) \<and>
   explicit_env cfg ''ES_USE_SSL'' = Some (use_ssl cfg) \<and>
   explicit_env cfg ''ES_USERNAME'' = Some (es_username cfg) \<and>
   explicit_env cfg ''ES_PASSWORD'' = Some (es_password cfg) \<and>
   dom (build_env cfg penv) =
     {''ES_HOST'', ''ES_PORT'', ''ES_USE_SSL'', ''ES_USERNAME'', ''ES_PASSWORD''} \<union> fst ` set penv"
proof -
  have "dom (explicit_env cfg) =
          {''ES_HOST'', ''ES_PORT'', ''ES_USE_SSL'', ''ES_USERNAME'', ''ES_PASSWORD''}"
    by (auto simp add: explicit_env_def split: if_splits)
  then show ?thesis
    by (simp add: testRule_spawned build_env_def copy_env_other copy_env_inherited copy_env_dom)
       (simp add: explicit_env_def)
qed

text \<open>
  Claim C1 as written fails: an inherited \<open>ES_HOST\<close> replaces the configured host.
\<close>

theorem env_explicit_counterexample:
  "es_host sample_config = JStr ''elastalert'' \<and>
   env (testRule sample_controller sample_config [(''ES_HOST'', ''es.internal'')] ''abc''
          sample_fs (Inr sample_child) ''rule'' no_options False) ''ES_HOST''
     = Some (JStr ''es.internal'') \<and>
   env (testRule sample_controller sample_config [(''ES_HOST'', ''es.internal'')] ''abc''
          sample_fs (Inr sample_child) ''rule'' no_options False) ''ES_HOST''
     \<noteq> Some (es_host sample_config)"
  by (simp add: testRule_spawned sample_fs_def build_env_def sample_config_def)

theorem env_inherited_wins_witness:
  "writable sample_fs \<and>
   distinct (map fst [(''ES_HOST'', ''es.internal''), (''HOME'', ''/root'')]) \<and>
   (''ES_HOST'', ''es.internal'') \<in> set [(''ES_HOST'', ''es.internal''), (''HOME'', ''/root'')] \<and>
   ''ES_PORT'' \<notin> fst ` set [(''ES_HOST'', ''es.internal''), (''HOME'', ''/root'')] \<and>
   env (testRule sample_controller sample_config
          [(''ES_HOST'', ''es.internal''), (''HOME'', ''/root'')] ''abc''
          sample_fs (Inr sample_child) ''rule'' no_options False) =
     build_env sample_config [(''ES_HOST'', ''es.internal''), (''HOME'', ''/root'')] \<and>
   build_env sample_config [(''ES_HOST'', ''es.internal''), (''HOME'', ''/root'')] ''ES_HOST''
     = Some (JStr ''es.internal'') \<and>
   build_env sample_config [(''ES_HOST'', ''es.internal''), (''HOME'', ''/root'')] ''ES_PORT''
     = Some (JNum 9200)"
  using env_inherited_wins [of sample_fs sample_controller sample_config
      "[(''ES_HOST'', ''es.internal''), (''HOME'', ''/root'')]" "''abc''" sample_child "''rule''"
      no_options False "''ES_HOST''" "''es.internal''"]
    env_inherited_wins [of sample_fs sample_controller sample_config
      "[(''ES_HOST'', ''es.internal''), (''HOME'', ''/root'')]" "''abc''" sample_child "''rule''"
      no_options False "''ES_PORT''" "''9200''"]
  by (simp add: sample_fs_def sample_config_def)




text \<open>
  Claim C5, as amended. The argument vector of the test process is: \<open>-m\<close>,
  \<open>elastalert.test_rule\<close>, \<open>--config\<close> and the configuration path, always; \<open>--days\<close>
  with the value exactly when \<open>days\<close> is present and not \<open>0\<close>; \<open>--formatted-output\<close>
  exactly when \<open>format\<close> is \<open>json\<close>; \<open>--max-query-size\<close> with the value exactly when
  \<open>maxResults\<close> is greater than \<open>0\<close>; \<open>--alert\<close> exactly when \<open>alert\<close> is true;
  \<open>--schema-only\<close> exactly when \<open>testType\<close> is \<open>schemaOnly\<close> and \<open>--count-only\<close> exactly
  when it is \<open>countOnly\<close>; and the path of the temporary rule file, always, as the last
  argument. This vector is the one the test process is spawned with.
\<close>

theorem processOptions_built:
  "processOptions dir opts tmp =
     [Str ''-m'', Str ''elastalert.test_rule'', Str ''--config'', Path (PathJoin dir ''config.yaml'')]
     @ (case days opts of Some d \<Rightarrow> if d \<noteq> 0 then [Str ''--days'', Num d] else [] | None \<Rightarrow> [])
     @ (if format opts = Some ''json'' then [Str ''--formatted-output''] else [])
     @ (case maxResults opts of Some n \<Rightarrow> if 0 < n then [Str ''--max-query-size'', Num n] else []
        | None \<Rightarrow> [])
     @ (if alert opts = Some True then [Str ''--alert''] else [])
     @ (if testType opts = Some ''schemaOnly'' then [Str ''--schema-only'']
        else if testType opts = Some ''countOnly'' then [Str ''--count-only''] else [])
     @ [Path tmp] \<and>
   (Str ''--days'' \<in> set (processOptions dir opts tmp) \<longleftrightarrow> (\<exists>d. days opts = Some d \<and> d \<noteq> 0)) \<and>
   (Str ''--formatted-output'' \<in> set (processOptions dir opts tmp) \<longleftrightarrow> format opts = Some ''json'') \<and>
   (Str ''--max-query-size'' \<in> set (processOptions dir opts tmp) \<longleftrightarrow>
      (\<exists>n. maxResults opts = Some n \<and> 0 < n)) \<and>
   (Str ''--alert'' \<in> set (processOptions dir opts tmp) \<longleftrightarrow> alert opts = Some True) \<and>
   (Str ''--schema-only'' \<in> set (processOptions dir opts tmp) \<longleftrightarrow> testType opts = Some ''schemaOnly'') \<and>
   (Str ''--count-only'' \<in> set (processOptions dir opts tmp) \<longleftrightarrow> testType opts = Some ''countOnly'') \<and>
   last (processOptions dir opts tmp) = Path tmp \<and>
   (writable fsys \<longrightarrow>
      trace (testRule self cfg penv rnd fsys (Inr child) rule opts sock) =
        [SpawnTest ''python3''
           (processOptions (installPath self) opts (PathJoin (testFolder self) (''~'' @ rnd @ ''.temp'')))
           (installPath self)])"
  by (simp add: processOptions_closed testRule_spawned split: option.splits) metis

text \<open>
  Claim C5 as written fails: \<open>days\<close> is present with the value \<open>0\<close>, and no \<open>--days\<close>
  flag is passed.
\<close>

theorem days_zero_counterexample:
  "days (no_options\<lparr>days := Some 0\<rparr>) = Some 0 \<and>
   Str ''--days'' \<notin> set (processOptions ''/opt/elastalert'' (no_options\<lparr>days := Some 0\<rparr>)
                           (PathJoin ''/data/tests'' ''~abc.temp'')) \<and>
   processOptions ''/opt/elastalert'' (no_options\<lparr>days := Some 0\<rparr>)
     (PathJoin ''/data/tests'' ''~abc.temp'') =
     [Str ''-m'', Str ''elastalert.test_rule'', Str ''--config'',
      Path (PathJoin ''/opt/elastalert'' ''config.yaml''), Path (PathJoin ''/data/tests'' ''~abc.temp'')]"
  by (simp add: processOptions_closed no_options_def)

theorem processOptions_built_witness:
  "writable sample_fs \<and>
   processOptions ''/opt/elastalert''
     \<lparr>days = Some 2, format = Some ''json'', maxResults = Some 50, alert = Some True,
      testType = Some ''countOnly''\<rparr> (PathJoin ''/data/tests'' ''~abc.temp'') =
     [Str ''-m'', Str ''elastalert.test_rule'', Str ''--config'',
      Path (PathJoin ''/opt/elastalert'' ''config.yaml''), Str ''--days'', Num 2,
      Str ''--formatted-output'', Str ''--max-query-size'', Num 50, Str ''--alert'',
      Str ''--count-only'', Path (PathJoin ''/data/tests'' ''~abc.temp'')]"
  using processOptions_built [of "''/opt/elastalert''"
      "\<lparr>days = Some 2, format = Some ''json'', maxResults = Some 50, alert = Some True,
        testType = Some ''countOnly''\<rparr>" "PathJoin ''/data/tests'' ''~abc.temp''"
      sample_fs sample_controller sample_config "[]" "''abc''" sample_child "''rule''" False]
  by (simp add: sample_fs_def)







end
